theory Spec2Isabelle
  imports Complex_Main
begin

section \<open>Triangular arbitrage over FIL, ETH and BSV (main.go)\<close>

text \<open>
  The program keeps the latest quote of three trading pairs and, after every received
  quote, runs \<open>TriArbStrategy.Execute\<close> on the cache: the method compares the prices of
  the triangle and, when an arbitrage condition holds, updates three simulated balances.

  Modelling decisions:
  \<^item> Go's \<open>float64\<close> is modelled by \<open>real\<close>: arithmetic is exact, without rounding,
    overflow, infinities or NaN. The only division of the program is by
    \<open>1 - CostRate\<close>; Go yields an infinity or NaN when that is zero whereas HOL's
    \<open>x / 0\<close> is \<open>0\<close>, so the theorems that use laws of arithmetic on such a
    quotient assume \<open>CostRate \<noteq> 1\<close>.
  \<^item> \<open>map[string]*PriceInfo\<close> is a partial map from strings to quotes. A missing key
    and a stored nil pointer both read as \<open>nil\<close> in Go; both are \<open>None\<close> here.
  \<^item> The method mutates its receiver; the model takes the strategy and returns the
    updated one. The calls to \<open>fmt.Printf\<close> only print and are left out.
\<close>

subsection \<open>Constants and data\<close>

definition FIL_ETH :: string where
  "FIL_ETH = ''FIL-ETH''"

definition ETH_BSV :: string where
  "ETH_BSV = ''ETH-BSV''"

definition FIL_BSV :: string where
  "FIL_BSV = ''FIL-BSV''"

record PriceInfo =
  Symbol :: string
  Bid :: real
  Ask :: real

record TriArbStrategy =
  FilAmount :: real
  EthAmount :: real
  BsvAmount :: real
  CostRate :: real
  SlipRate :: real

subsection \<open>The two arbitrage conditions\<close>

definition forwardArbCond ::
  "TriArbStrategy \<Rightarrow> PriceInfo \<Rightarrow> PriceInfo \<Rightarrow> PriceInfo \<Rightarrow> bool" where
  "forwardArbCond s filEthPrice ethBsvPrice filBsvPrice =
     (Ask filEthPrice * Ask ethBsvPrice
        < Bid filBsvPrice * (1 - CostRate s) * (1 - SlipRate s))"

definition reverseArbCond ::
  "TriArbStrategy \<Rightarrow> PriceInfo \<Rightarrow> PriceInfo \<Rightarrow> PriceInfo \<Rightarrow> bool" where
  "reverseArbCond s filEthPrice ethBsvPrice filBsvPrice =
     (Bid filEthPrice * Bid ethBsvPrice
        > Ask filBsvPrice * (1 + CostRate s) * (1 + SlipRate s))"

subsection \<open>The body of the forward branch\<close>

text \<open>
  The block under \<open>if forwardArbCond\<close>, statement by statement. It returns the updated
  strategy together with the local \<open>ethGet\<close>, which the reverse branch reads.
\<close>

definition forwardArb ::
  "TriArbStrategy \<Rightarrow> PriceInfo \<Rightarrow> PriceInfo \<Rightarrow> PriceInfo \<Rightarrow> TriArbStrategy \<times> real" where
  "forwardArb s filEthPrice ethBsvPrice filBsvPrice =
     (let filToSell = 100;
          filCost = filToSell / (1 - CostRate s);
          ethToBuy = filToSell * Ask filEthPrice;
          ethGet = ethToBuy * (1 - SlipRate s);
          s = s\<lparr>FilAmount := FilAmount s - filCost\<rparr>;
          s = s\<lparr>EthAmount := EthAmount s + ethGet\<rparr>;
          ethToSell = ethGet;
          ethCost = ethToSell / (1 - CostRate s);
          bsvToBuy = ethToSell * Ask ethBsvPrice;
          bsvGet = bsvToBuy * (1 - SlipRate s);
          s = s\<lparr>EthAmount := EthAmount s - ethCost\<rparr>;
          s = s\<lparr>BsvAmount := BsvAmount s + bsvGet\<rparr>;
          bsvToSell = bsvGet;
          bsvCost = bsvToSell / (1 - CostRate s);
          filToBuy = bsvToSell * Bid filBsvPrice;
          filGet = filToBuy * (1 - SlipRate s);
          s = s\<lparr>BsvAmount := BsvAmount s - bsvCost\<rparr>;
          s = s\<lparr>FilAmount := FilAmount s + filGet\<rparr>
      in (s, ethGet))"

subsection \<open>The body of the reverse branch\<close>

text \<open>
  The block under \<open>if reverseArbCond\<close>. Its comments number the steps 1 and 3; there is
  no step 2. The second step of the block reads \<open>ethGet\<close>, a variable declared with
  \<open>:=\<close> inside the forward block, so the value it reads is an argument here.
\<close>

definition reverseArb ::
  "TriArbStrategy \<Rightarrow> real \<Rightarrow> PriceInfo \<Rightarrow> PriceInfo \<Rightarrow> TriArbStrategy" where
  "reverseArb s ethGet filEthPrice filBsvPrice =
     (let filToSell = 100;
          filCost = filToSell / (1 - CostRate s);
          bsvToBuy = filToSell * Ask filBsvPrice;
          bsvGet = bsvToBuy * (1 - SlipRate s);
          s = s\<lparr>FilAmount := FilAmount s - filCost\<rparr>;
          s = s\<lparr>BsvAmount := BsvAmount s + bsvGet\<rparr>;
          ethToSell = ethGet;
          ethCost = ethToSell / (1 - CostRate s);
          filToBuy = ethToSell * Bid filEthPrice;
          filGet = filToBuy * (1 - SlipRate s);
          s = s\<lparr>EthAmount := EthAmount s - ethCost\<rparr>;
          s = s\<lparr>FilAmount := FilAmount s + filGet\<rparr>
      in s)"

subsection \<open>Execute\<close>

text \<open>
  \<open>ethGet\<close> is in scope only inside the forward block, so the source leaves open what the
  reverse block reads when the forward block has not run. The model reads the forward
  block's \<open>ethGet\<close> when that block ran and the extra argument \<open>ethGet0\<close> otherwise;
  every theorem below holds for all values of \<open>ethGet0\<close>.
\<close>

definition Execute ::
  "real \<Rightarrow> TriArbStrategy \<Rightarrow> (string \<rightharpoonup> PriceInfo) \<Rightarrow> TriArbStrategy" where
  "Execute ethGet0 s prices =
     (case prices FIL_ETH of
        None \<Rightarrow> s
      | Some filEthPrice \<Rightarrow>
     (case prices ETH_BSV of
        None \<Rightarrow> s
      | Some ethBsvPrice \<Rightarrow>
     (case prices FIL_BSV of
        None \<Rightarrow> s
      | Some filBsvPrice \<Rightarrow>
          (let forwardCond = forwardArbCond s filEthPrice ethBsvPrice filBsvPrice;
               reverseCond = reverseArbCond s filEthPrice ethBsvPrice filBsvPrice;
               (s, ethGet) =
                  (if forwardCond then forwardArb s filEthPrice ethBsvPrice filBsvPrice
                   else (s, ethGet0));
               s = (if reverseCond then reverseArb s ethGet filEthPrice filBsvPrice else s)
           in s))))"

subsection \<open>The quote cache of the main loop\<close>

text \<open>
  \<open>connectAndReceivePrices\<close> sends, for every decoded quote whose symbol is one of the
  three pairs, a map with that single entry; other quotes are dropped.
\<close>

definition priceMessage :: "PriceInfo \<Rightarrow> (string \<rightharpoonup> PriceInfo) option" where
  "priceMessage price =
     (if Symbol price = FIL_ETH \<or> Symbol price = ETH_BSV \<or> Symbol price = FIL_BSV
      then Some [Symbol price \<mapsto> price] else None)"

text \<open>
  The main loop copies every entry of the received map into \<open>priceMap\<close>
  (\<open>for symbol, info := range price { priceMap[symbol] = info }\<close>). The keys of a map
  are distinct, so the order of the iteration does not matter and the loop is the
  right-biased union of the two maps.
\<close>

definition updatePriceMap ::
  "(string \<rightharpoonup> PriceInfo) \<Rightarrow> (string \<rightharpoonup> PriceInfo) \<Rightarrow> (string \<rightharpoonup> PriceInfo)" where
  "updatePriceMap priceMap price = priceMap ++ price"

text \<open>The strategy instance that \<open>main\<close> creates.\<close>

definition strategy :: TriArbStrategy where
  "strategy = \<lparr>FilAmount = 700, EthAmount = 0, BsvAmount = 0,
                CostRate = 0.001, SlipRate = 0.0001\<rparr>"

section \<open>Shared facts\<close>

lemma forwardArb_rates:
  "CostRate (fst (forwardArb s q1 q2 q3)) = CostRate s"
  "SlipRate (fst (forwardArb s q1 q2 q3)) = SlipRate s"
  by (simp_all add: forwardArb_def Let_def)

lemma reverseArb_rates:
  "CostRate (reverseArb s g q1 q3) = CostRate s"
  "SlipRate (reverseArb s g q1 q3) = SlipRate s"
  by (simp_all add: reverseArb_def Let_def)

lemma Execute_missing:
  "prices FIL_ETH = None \<or> prices ETH_BSV = None \<or> prices FIL_BSV = None
   \<Longrightarrow> Execute e0 s prices = s"
  by (auto simp: Execute_def split: option.splits)

lemma Execute_present:
  assumes "prices FIL_ETH = Some q1" "prices ETH_BSV = Some q2" "prices FIL_BSV = Some q3"
  shows "Execute e0 s prices =
           (if forwardArbCond s q1 q2 q3
            then (if reverseArbCond s q1 q2 q3
                  then reverseArb (fst (forwardArb s q1 q2 q3)) (snd (forwardArb s q1 q2 q3)) q1 q3
                  else fst (forwardArb s q1 q2 q3))
            else (if reverseArbCond s q1 q2 q3 then reverseArb s e0 q1 q3 else s))"
  using assms by (simp add: Execute_def Let_def split: prod.splits)

lemma Execute_rates:
  "CostRate (Execute e0 s prices) = CostRate s"
  "SlipRate (Execute e0 s prices) = SlipRate s"
proof -
  show "CostRate (Execute e0 s prices) = CostRate s"
  proof (cases "prices FIL_ETH = None \<or> prices ETH_BSV = None \<or> prices FIL_BSV = None")
    case True
    then show ?thesis by (simp only: Execute_missing)
  next
    case False
    then obtain q1 q2 q3 where
      "prices FIL_ETH = Some q1" "prices ETH_BSV = Some q2" "prices FIL_BSV = Some q3"
      by auto
    then show ?thesis
      by (simp add: Execute_present forwardArb_rates reverseArb_rates)
  qed
  show "SlipRate (Execute e0 s prices) = SlipRate s"
  proof (cases "prices FIL_ETH = None \<or> prices ETH_BSV = None \<or> prices FIL_BSV = None")
    case True
    then show ?thesis by (simp only: Execute_missing)
  next
    case False
    then obtain q1 q2 q3 where
      "prices FIL_ETH = Some q1" "prices ETH_BSV = Some q2" "prices FIL_BSV = Some q3"
      by auto
    then show ?thesis
      by (simp add: Execute_present forwardArb_rates reverseArb_rates)
  qed
qed





lemma dom_foldl_updatePriceMap:
  "dom priceMap \<subseteq> dom (foldl updatePriceMap priceMap msgs)"
proof (induction msgs arbitrary: priceMap)
  case Nil
  show ?case by simp
next
  case (Cons m msgs)
  have "dom priceMap \<subseteq> dom (updatePriceMap priceMap m)"
    by (auto simp: updatePriceMap_def)
  also have "\<dots> \<subseteq> dom (foldl updatePriceMap (updatePriceMap priceMap m) msgs)"
    by (rule Cons.IH)
  finally show ?case by simp
qed

section \<open>Missing quotes\<close>

text \<open>
  Claim C3. When at least one of the three symbols FIL-ETH, ETH-BSV, FIL-BSV has no quote
  in the snapshot, \<open>Execute\<close> returns the strategy it was given: the three balances and
  the two rates are unchanged. The model is a total function, and the source returns
  before it dereferences any of the three pointers.
\<close>

theorem Execute_missing_quote_noop:
  "prices FIL_ETH = None \<or> prices ETH_BSV = None \<or> prices FIL_BSV = None
   \<Longrightarrow> Execute e0 s prices = s"
  by (auto simp: Execute_def split: option.splits)

theorem Execute_missing_quote_noop_witness:
  "[FIL_ETH \<mapsto> \<lparr>Symbol = FIL_ETH, Bid = 0.1, Ask = 0.1\<rparr>,
    ETH_BSV \<mapsto> \<lparr>Symbol = ETH_BSV, Bid = 0.5, Ask = 0.5\<rparr>] FIL_BSV = None
   \<and> Execute 0 strategy
        [FIL_ETH \<mapsto> \<lparr>Symbol = FIL_ETH, Bid = 0.1, Ask = 0.1\<rparr>,
         ETH_BSV \<mapsto> \<lparr>Symbol = ETH_BSV, Bid = 0.5, Ask = 0.5\<rparr>] = strategy"
  using Execute_missing_quote_noop
    [of "[FIL_ETH \<mapsto> \<lparr>Symbol = FIL_ETH, Bid = 0.1, Ask = 0.1\<rparr>,
          ETH_BSV \<mapsto> \<lparr>Symbol = ETH_BSV, Bid = 0.5, Ask = 0.5\<rparr>]" 0 strategy]
  by (simp add: FIL_ETH_def ETH_BSV_def FIL_BSV_def)

section \<open>The rates are never written\<close>

text \<open>
  Claim C9. For every snapshot and every strategy, \<open>Execute\<close> leaves \<open>CostRate\<close> and
  \<open>SlipRate\<close> as they were; only the three balances can change.
\<close>

theorem Execute_keeps_rates:
  "CostRate (Execute e0 s prices) = CostRate s \<and> SlipRate (Execute e0 s prices) = SlipRate s"
  by (simp add: Execute_rates)

section \<open>The forward cycle\<close>




section \<open>The reverse block\<close>

text \<open>
  Claim C2 (the reverse condition triggers a mirrored three-leg cycle FIL to BSV, BSV to
  ETH, ETH to FIL) against the code, at the example of the specification: bids 0.1 and
  0.5, ask 0.04, rates 0.001 and 0.0001, on the strategy of \<open>main\<close>, with asks and bid
  such that the forward condition fails. The reverse condition holds, and the block runs
  two legs only: FIL is debited and BSV credited, then ETH is debited by
  \<open>ethGet / (1 - CostRate)\<close> and FIL credited, for the \<open>ethGet\<close> that the forward block
  did not compute. BSV is never debited and ETH is never credited, whatever \<open>ethGet\<close>
  is read.
\<close>

theorem reverse_example_two_legs:
  "\<not> forwardArbCond strategy
         \<lparr>Symbol = FIL_ETH, Bid = 0.1, Ask = 0.11\<rparr>
         \<lparr>Symbol = ETH_BSV, Bid = 0.5, Ask = 0.51\<rparr>
         \<lparr>Symbol = FIL_BSV, Bid = 0.039, Ask = 0.04\<rparr>
   \<and> reverseArbCond strategy
         \<lparr>Symbol = FIL_ETH, Bid = 0.1, Ask = 0.11\<rparr>
         \<lparr>Symbol = ETH_BSV, Bid = 0.5, Ask = 0.51\<rparr>
         \<lparr>Symbol = FIL_BSV, Bid = 0.039, Ask = 0.04\<rparr>
   \<and> Execute e0 strategy
        [FIL_ETH \<mapsto> \<lparr>Symbol = FIL_ETH, Bid = 0.1, Ask = 0.11\<rparr>,
         ETH_BSV \<mapsto> \<lparr>Symbol = ETH_BSV, Bid = 0.5, Ask = 0.51\<rparr>,
         FIL_BSV \<mapsto> \<lparr>Symbol = FIL_BSV, Bid = 0.039, Ask = 0.04\<rparr>]
      = \<lparr>FilAmount = 700 - 100 / (1 - 0.001) + e0 * 0.1 * (1 - 0.0001),
          EthAmount = 0 - e0 / (1 - 0.001),
          BsvAmount = 0 + 100 * 0.04 * (1 - 0.0001),
          CostRate = 0.001, SlipRate = 0.0001\<rparr>"
  by (simp add: Execute_def forwardArbCond_def reverseArbCond_def reverseArb_def Let_def
        strategy_def FIL_ETH_def ETH_BSV_def FIL_BSV_def)

section \<open>The forward trigger is strict\<close>



section \<open>Overdrawn balances\<close>

text \<open>
  Claim C5. There are a snapshot and a strategy with small non-negative balances on which
  \<open>Execute\<close> debits more than a balance holds and leaves it negative. With 50 FIL, no
  ETH and no BSV, leg 1 debits \<open>100 / 0.999\<close> FIL; all three legs run and each of the
  three balances ends below zero, at exactly the unclamped value of the formulas.
\<close>

theorem overdraw_example:
  "FilAmount \<lparr>FilAmount = 50, EthAmount = 0, BsvAmount = 0, CostRate = 0.001, SlipRate = 0.0001\<rparr>
      < 100 / (1 - 0.001)
   \<and> Execute 0
        \<lparr>FilAmount = 50, EthAmount = 0, BsvAmount = 0, CostRate = 0.001, SlipRate = 0.0001\<rparr>
        [FIL_ETH \<mapsto> \<lparr>Symbol = FIL_ETH, Bid = 0.09, Ask = 0.1\<rparr>,
         ETH_BSV \<mapsto> \<lparr>Symbol = ETH_BSV, Bid = 0.49, Ask = 0.5\<rparr>,
         FIL_BSV \<mapsto> \<lparr>Symbol = FIL_BSV, Bid = 0.06, Ask = 0.061\<rparr>]
      = \<lparr>FilAmount = 50 - 100 / (1 - 0.001) + 0.299910008999700,
          EthAmount = 9.999 - 9.999 / (1 - 0.001),
          BsvAmount = 4.9990000500 - 4.9990000500 / (1 - 0.001),
          CostRate = 0.001, SlipRate = 0.0001\<rparr>
   \<and> (50 - 100 / (1 - 0.001) + 0.299910008999700 :: real) < 0
   \<and> (9.999 - 9.999 / (1 - 0.001) :: real) < 0
   \<and> (4.9990000500 - 4.9990000500 / (1 - 0.001) :: real) < 0"
  by (simp add: Execute_def forwardArbCond_def reverseArbCond_def forwardArb_def Let_def
        FIL_ETH_def ETH_BSV_def FIL_BSV_def)

section \<open>Both conditions at once\<close>



section \<open>Calling Execute twice\<close>



section \<open>The quote cache\<close>

text \<open>
  Claim C8. Storing the message built from a quote \<open>q\<close> of one of the three pairs makes
  \<open>q\<close> the entry of \<open>Symbol q\<close> whatever the cache held before, leaves every other entry
  as it was, and removes nothing: the keys afterwards are the old keys and \<open>Symbol q\<close>,
  and they are still keys after any further sequence of updates.
\<close>

theorem updatePriceMap_last_write_wins:
  assumes "priceMessage q = Some msg"
  shows "updatePriceMap priceMap msg (Symbol q) = Some q
       \<and> (\<forall>k. k \<noteq> Symbol q \<longrightarrow> updatePriceMap priceMap msg k = priceMap k)
       \<and> dom (updatePriceMap priceMap msg) = insert (Symbol q) (dom priceMap)
       \<and> (\<forall>later. dom (updatePriceMap priceMap msg)
             \<subseteq> dom (foldl updatePriceMap (updatePriceMap priceMap msg) later))"
proof -
  from assms have msg: "msg = [Symbol q \<mapsto> q]"
    by (simp add: priceMessage_def split: if_splits)
  have a: "updatePriceMap priceMap msg (Symbol q) = Some q"
    by (simp add: msg updatePriceMap_def)
  have b: "\<forall>k. k \<noteq> Symbol q \<longrightarrow> updatePriceMap priceMap msg k = priceMap k"
    by (simp add: msg updatePriceMap_def)
  have c: "dom (updatePriceMap priceMap msg) = insert (Symbol q) (dom priceMap)"
    by (simp add: msg updatePriceMap_def)
  have d: "\<forall>later. dom (updatePriceMap priceMap msg)
             \<subseteq> dom (foldl updatePriceMap (updatePriceMap priceMap msg) later)"
    by (simp only: dom_foldl_updatePriceMap simp_thms)
  from a b c d show ?thesis by blast
qed

theorem updatePriceMap_last_write_wins_witness:
  "priceMessage \<lparr>Symbol = FIL_ETH, Bid = 0.08, Ask = 0.09\<rparr>
     = Some [FIL_ETH \<mapsto> \<lparr>Symbol = FIL_ETH, Bid = 0.08, Ask = 0.09\<rparr>]
   \<and> updatePriceMap
        [FIL_ETH \<mapsto> \<lparr>Symbol = FIL_ETH, Bid = 0.1, Ask = 0.11\<rparr>,
         ETH_BSV \<mapsto> \<lparr>Symbol = ETH_BSV, Bid = 0.5, Ask = 0.51\<rparr>]
        [FIL_ETH \<mapsto> \<lparr>Symbol = FIL_ETH, Bid = 0.08, Ask = 0.09\<rparr>] FIL_ETH
      = Some \<lparr>Symbol = FIL_ETH, Bid = 0.08, Ask = 0.09\<rparr>
   \<and> updatePriceMap
        [FIL_ETH \<mapsto> \<lparr>Symbol = FIL_ETH, Bid = 0.1, Ask = 0.11\<rparr>,
         ETH_BSV \<mapsto> \<lparr>Symbol = ETH_BSV, Bid = 0.5, Ask = 0.51\<rparr>]
        [FIL_ETH \<mapsto> \<lparr>Symbol = FIL_ETH, Bid = 0.08, Ask = 0.09\<rparr>] ETH_BSV
      = Some \<lparr>Symbol = ETH_BSV, Bid = 0.5, Ask = 0.51\<rparr>"
proof -
  let ?q = "\<lparr>Symbol = FIL_ETH, Bid = 0.08, Ask = 0.09\<rparr>"
  let ?m = "[FIL_ETH \<mapsto> \<lparr>Symbol = FIL_ETH, Bid = 0.1, Ask = 0.11\<rparr>,
             ETH_BSV \<mapsto> \<lparr>Symbol = ETH_BSV, Bid = 0.5, Ask = 0.51\<rparr>]"
  have h: "priceMessage ?q = Some [FIL_ETH \<mapsto> ?q]"
    by (simp add: priceMessage_def)
  have ne: "ETH_BSV \<noteq> Symbol ?q"
    by (simp add: FIL_ETH_def ETH_BSV_def)
  note t = updatePriceMap_last_write_wins [OF h, of ?m]
  from t have "updatePriceMap ?m [FIL_ETH \<mapsto> ?q] (Symbol ?q) = Some ?q"
    by blast
  moreover from t ne have "updatePriceMap ?m [FIL_ETH \<mapsto> ?q] ETH_BSV = ?m ETH_BSV"
    by blast
  moreover have "?m ETH_BSV = Some \<lparr>Symbol = ETH_BSV, Bid = 0.5, Ask = 0.51\<rparr>"
    by simp
  ultimately show ?thesis using h by simp
qed

section \<open>The forward cycle lowers the ETH balance\<close>



end
